theory Spec2Isabelle
  imports Complex_Main "HOL-Library.Sublist"
begin

section \<open>Python helpers\<close>

text \<open>
  Exception messages, addresses, names and reason codes are ASCII strings.
  \<open>py_lower\<close> is \<open>str.lower()\<close> on ASCII, \<open>py_in needle hay\<close> is the substring test
  \<open>needle in hay\<close>, \<open>dict_get v d\<close> is \<open>dict.get(key, d)\<close> where \<open>v\<close> is the entry
  stored under the key (\<open>None\<close> when the key is absent), and \<open>py_slice_to n xs\<close> is the
  slice \<open>xs[:n]\<close>.
\<close>

definition lower_char :: "char \<Rightarrow> char" where
  "lower_char c =
     (let n = (of_char c :: nat) in if 65 \<le> n \<and> n \<le> 90 then char_of (n + 32) else c)"

definition py_lower :: "string \<Rightarrow> string" where
  "py_lower s = map lower_char s"

fun py_in :: "string \<Rightarrow> string \<Rightarrow> bool" where
  "py_in needle [] = (needle = [])"
| "py_in needle (c # cs) = (take (length needle) (c # cs) = needle \<or> py_in needle cs)"

definition dict_get :: "'a option \<Rightarrow> 'a \<Rightarrow> 'a" where
  "dict_get v d = (case v of None \<Rightarrow> d | Some x \<Rightarrow> x)"

definition py_slice_to :: "int \<Rightarrow> 'a list \<Rightarrow> 'a list" where
  "py_slice_to n xs =
     (if 0 \<le> n then take (nat n) xs else take (nat (int (length xs) + n)) xs)"

datatype 'a outcome = Returns 'a | Raises string | Pending

text \<open>
  A decoded JSON number is a Python integer or a Python float; a float is a finite value,
  an infinity or not a number (the decoder accepts \<open>NaN\<close> and \<open>Infinity\<close>). \<open>num_val\<close> is
  the exact value of a number, on which Python compares integers and floats, and
  \<open>float_le\<close> and \<open>float_lt\<close> are the comparisons \<open><=\<close> and \<open><\<close>, false whenever an
  operand is not a number; \<open>py_eq\<close> is \<open>==\<close>. \<open>py_float\<close> is the conversion \<open>float(x)\<close>: the identity on a
  float, and on an integer the nearest double, ties to even, or \<open>OverflowError\<close> when
  that is beyond the range of a double.
\<close>

datatype pyfloat = Finite rat | PosInf | NegInf | NaN

datatype pynum = PyInt int | PyFloat pyfloat

definition num_val :: "pynum \<Rightarrow> pyfloat" where
  "num_val x = (case x of PyInt i \<Rightarrow> Finite (of_int i) | PyFloat f \<Rightarrow> f)"

definition float_le :: "pyfloat \<Rightarrow> pyfloat \<Rightarrow> bool" where
  "float_le x y =
     (case x of
        NaN \<Rightarrow> False
      | NegInf \<Rightarrow> y \<noteq> NaN
      | PosInf \<Rightarrow> y = PosInf
      | Finite a \<Rightarrow>
          (case y of NaN \<Rightarrow> False | NegInf \<Rightarrow> False | PosInf \<Rightarrow> True
           | Finite b \<Rightarrow> a \<le> b))"

definition float_lt :: "pyfloat \<Rightarrow> pyfloat \<Rightarrow> bool" where
  "float_lt x y =
     (case x of
        NaN \<Rightarrow> False
      | NegInf \<Rightarrow> y \<noteq> NaN \<and> y \<noteq> NegInf
      | PosInf \<Rightarrow> False
      | Finite a \<Rightarrow>
          (case y of NaN \<Rightarrow> False | NegInf \<Rightarrow> False | PosInf \<Rightarrow> True
           | Finite b \<Rightarrow> a < b))"

definition py_le :: "pynum \<Rightarrow> pynum \<Rightarrow> bool" where
  "py_le x y = float_le (num_val x) (num_val y)"



fun bit_length :: "nat \<Rightarrow> nat" where
  "bit_length n = (if n = 0 then 0 else Suc (bit_length (n div 2)))"

declare bit_length.simps [simp del]

definition float_of_int :: "int \<Rightarrow> string + pyfloat" where
  "float_of_int i =
     (let a = nat \<bar>i\<bar>; n = bit_length a
      in if n \<le> 53 then Inr (Finite (of_int i))
         else (let sh = n - 53; q = a div 2 ^ sh; r = a mod 2 ^ sh; half = 2 ^ (sh - 1);
                   q' = (if half < r \<or> (r = half \<and> odd q) then q + 1 else q);
                   m = q' * 2 ^ sh
               in if 2 ^ 1024 \<le> m then Inl ''int too large to convert to float''
                  else Inr (Finite (of_int (sgn i * int m)))))"

definition py_float :: "pynum \<Rightarrow> string + pyfloat" where
  "py_float x = (case x of PyFloat f \<Rightarrow> Inr f | PyInt i \<Rightarrow> float_of_int i)"

section \<open>Upstream payloads read by scrapers/gmgn.py\<close>

text \<open>
  The data section of a GMGN payload is a JSON object. The record lists the keys the
  code reads, each present or absent, typed as the wallet statistics are; \<open>other_keys\<close>
  counts the keys the code never reads. The object is empty, and falsy for Python, when
  no key is present.
\<close>

record token_info =
  symbol :: "string option"

record holding =
  token :: "token_info option"
  total_profit_pnl :: "pynum option"

record gmgn_data =
  data_tags :: "string list option"
  data_winrate :: "pynum option"
  realized_profit_7d :: "pynum option"
  realized_profit_30d :: "pynum option"
  pnl_7d :: "pynum option"
  pnl_30d :: "pynum option"
  buy_7d :: "int option"
  sell_7d :: "int option"
  buy_30d :: "int option"
  sell_30d :: "int option"
  data_holdings :: "holding list option"
  other_keys :: nat

definition empty_dict :: gmgn_data where
  "empty_dict = \<lparr>data_tags = None, data_winrate = None, realized_profit_7d = None,
     realized_profit_30d = None, pnl_7d = None, pnl_30d = None, buy_7d = None,
     sell_7d = None, buy_30d = None, sell_30d = None, data_holdings = None,
     other_keys = 0\<rparr>"

definition dict_empty :: "gmgn_data \<Rightarrow> bool" where
  "dict_empty d \<longleftrightarrow> d = empty_dict"

text \<open>
  What one pass of the loop of \<open>_sync_fetch\<close> meets: the value of the stop predicate
  at the check that opens the pass, the reply of \<open>scraper.get\<close>, and the value of the
  stop predicate at the check of the HTTP 429 branch (read only there). The replies
  follow the order in which the code inspects them: \<open>scraper.get\<close> raises an exception
  that is no \<open>ValueError\<close> (\<open>GetRaises\<close>) or one that is, as the exceptions of an invalid
  header or an invalid URL are (\<open>GetRaisesValueError\<close>); the status is 429; the status
  makes \<open>raise_for_status\<close> raise; the body is no JSON; the JSON is no object; or the
  payload is an object with its code and data section, each present or absent.
\<close>

datatype response =
    GetRaises
  | GetRaisesValueError
  | Status429
  | HttpError
  | BodyNotJson
  | NonObject
  | Payload (payload_code: "int option") (payload_data: "gmgn_data option")

record attempt =
  stop_at_entry :: bool
  reply :: response
  stop_at_429 :: bool

text \<open>
  \<open>Sleep b j\<close> is \<open>time.sleep(b + random.uniform(0, j))\<close>, and \<open>time.sleep(b)\<close> when
  \<open>j = 0\<close>; \<open>WaitSlot\<close> is a call of the rate limiter \<open>_wait_slot\<close>.
\<close>

datatype action = WaitSlot | HttpGet | Sleep nat nat

section \<open>The fetch client: \<open>_sync_fetch\<close>\<close>

text \<open>
  The loop runs over the passes the upstream grants it; \<open>cb\<close> says whether a stop
  predicate was supplied. The result is the actions performed, the outcome, and the
  passes left for the next fetch. \<open>Pending\<close> means that the loop is still retrying after
  all the given passes. The \<open>raise\<close> of the HTTP 429 branch sits inside the \<open>try\<close>
  block, so the handler \<open>except Exception\<close> of the same block receives it. The
  handler of \<open>ValueError\<close> reads \<open>resp.text\<close>: the local \<open>resp\<close> is bound from the first
  pass in which \<open>scraper.get\<close> returns (\<open>resp_bound\<close>), and while it is unbound the
  handler itself raises \<open>UnboundLocalError\<close>, which leaves the function (the text is
  that of Python 3.11 and later).
\<close>

definition unbound_resp_text :: string where
  "unbound_resp_text =
     ''cannot access local variable 'resp' where it is not associated with a value''"

definition retry ::
  "action list \<Rightarrow> action list \<times> 'a outcome \<times> attempt list \<Rightarrow>
   action list \<times> 'a outcome \<times> attempt list" where
  "retry acts r = (case r of (acts', out, rest) \<Rightarrow> (acts @ acts', out, rest))"

fun sync_fetch_loop ::
  "bool \<Rightarrow> bool \<Rightarrow> attempt list \<Rightarrow> action list \<times> gmgn_data outcome \<times> attempt list" where
  "sync_fetch_loop cb resp_bound [] = ([], Pending, [])"
| "sync_fetch_loop cb resp_bound (a # rest) =
     (if cb \<and> stop_at_entry a
      then ([WaitSlot], Raises ''Processing stopped by user'', rest)
      else (case reply a of
          GetRaises \<Rightarrow>
            retry [WaitSlot, HttpGet, Sleep 5 0] (sync_fetch_loop cb resp_bound rest)
        | GetRaisesValueError \<Rightarrow>
            if resp_bound
            then retry [WaitSlot, HttpGet, Sleep 2 0] (sync_fetch_loop cb resp_bound rest)
            else ([WaitSlot, HttpGet], Raises unbound_resp_text, rest)
        | Status429 \<Rightarrow>
            if cb \<and> stop_at_429 a
            then retry [WaitSlot, HttpGet, Sleep 5 0] (sync_fetch_loop cb True rest)
            else retry [WaitSlot, HttpGet, Sleep 3 2] (sync_fetch_loop cb True rest)
        | HttpError \<Rightarrow> retry [WaitSlot, HttpGet, Sleep 5 0] (sync_fetch_loop cb True rest)
        | BodyNotJson \<Rightarrow> retry [WaitSlot, HttpGet, Sleep 2 0] (sync_fetch_loop cb True rest)
        | NonObject \<Rightarrow> retry [WaitSlot, HttpGet, Sleep 5 0] (sync_fetch_loop cb True rest)
        | Payload c d \<Rightarrow>
            if dict_get c 0 \<noteq> 0
            then retry [WaitSlot, HttpGet, Sleep 2 1] (sync_fetch_loop cb True rest)
            else ([WaitSlot, HttpGet], Returns (dict_get d empty_dict), rest)))"

definition sync_fetch ::
  "bool \<Rightarrow> attempt list \<Rightarrow> action list \<times> gmgn_data outcome \<times> attempt list" where
  "sync_fetch cb trace = sync_fetch_loop cb False trace"

definition get_wallet_holdings ::
  "bool \<Rightarrow> attempt list \<Rightarrow> action list \<times> holding list outcome \<times> attempt list" where
  "get_wallet_holdings cb trace =
     (case sync_fetch cb trace of
        (acts, Returns d, rest) \<Rightarrow> (acts, Returns (dict_get (data_holdings d) []), rest)
      | (acts, Raises e, rest) \<Rightarrow> (acts, Raises e, rest)
      | (acts, Pending, rest) \<Rightarrow> (acts, Pending, rest))"

section \<open>The evaluator: \<open>evaluate_trader\<close>\<close>

text \<open>
  The statistics are built in the order of the dictionary display: the entries read from
  the summary first, then the list of the top holdings, where \<open>float(...)\<close> of an ROI may
  raise; the filters run only on the finished record. \<open>min_pnl30\<close> and \<open>min_roi\<close> are
  Python numbers; their defaults are the doubles written \<open>0.75\<close> and \<open>0.30\<close>.
\<close>

record gmgn_stats =
  tags :: "string list"
  winrate :: pynum
  pnl_usd_7d :: pynum
  pnl_usd_30d :: pynum
  pnl_pct_7d :: pynum
  pnl_pct_30d :: pynum
  tx_7d :: int
  tx_30d :: int
  top_holdings :: "(string \<times> pyfloat) list"

definition holding_symbol :: "holding \<Rightarrow> string" where
  "holding_symbol h = dict_get (symbol (dict_get (token h) \<lparr>symbol = None\<rparr>)) ''''"

fun convert_holdings :: "holding list \<Rightarrow> string + (string \<times> pyfloat) list" where
  "convert_holdings [] = Inr []"
| "convert_holdings (h # hs) =
     (case py_float (dict_get (total_profit_pnl h) (PyFloat (Finite 0))) of
        Inl e \<Rightarrow> Inl e
      | Inr roi \<Rightarrow>
          (case convert_holdings hs of
             Inl e \<Rightarrow> Inl e
           | Inr rest \<Rightarrow> Inr ((holding_symbol h, roi) # rest)))"

definition make_stats :: "gmgn_data \<Rightarrow> (string \<times> pyfloat) list \<Rightarrow> gmgn_stats" where
  "make_stats d holdings =
     \<lparr>tags = dict_get (data_tags d) [],
      winrate = dict_get (data_winrate d) (PyFloat (Finite 0)),
      pnl_usd_7d = dict_get (realized_profit_7d d) (PyFloat (Finite 0)),
      pnl_usd_30d = dict_get (realized_profit_30d d) (PyFloat (Finite 0)),
      pnl_pct_7d = dict_get (pnl_7d d) (PyFloat (Finite 0)),
      pnl_pct_30d = dict_get (pnl_30d d) (PyFloat (Finite 0)),
      tx_7d = dict_get (buy_7d d) 0 + dict_get (sell_7d d) 0,
      tx_30d = dict_get (buy_30d d) 0 + dict_get (sell_30d d) 0,
      top_holdings = holdings\<rparr>"

definition build_stats :: "gmgn_data \<Rightarrow> holding list \<Rightarrow> string + gmgn_stats" where
  "build_stats d top_hold =
     (case convert_holdings top_hold of
        Inl e \<Rightarrow> Inl e
      | Inr holdings \<Rightarrow> Inr (make_stats d holdings))"

definition apply_filters :: "pynum \<Rightarrow> pynum \<Rightarrow> gmgn_stats \<Rightarrow> string" where
  "apply_filters min_pnl30 min_roi stats =
     (if ''sandwich_bot'' \<in> set (tags stats) then ''TAG_sandwich_bot''
      else if py_le (pnl_pct_30d stats) min_pnl30 then ''PNL30_LOW''
      else if list_all (\<lambda>h. float_lt (snd h) (num_val min_roi)) (top_holdings stats)
      then ''ROI_LOW''
      else ''PASS'')"

definition default_min_pnl30 :: pynum where
  "default_min_pnl30 = PyFloat (Finite (3 / 4))"

definition default_min_roi :: pynum where
  "default_min_roi = PyFloat (Finite (5404319552844595 / 18014398509481984))"

text \<open>
  \<open>evaluate_trader\<close> with its parameters \<open>min_pnl30\<close>, \<open>min_roi\<close> and \<open>top_n\<close> (default
  3). The empty statistics \<open>{}\<close> returned with \<open>JSON_FAIL\<close> are \<open>None\<close>.
\<close>

definition evaluate_trader ::
  "pynum \<Rightarrow> pynum \<Rightarrow> int \<Rightarrow> bool \<Rightarrow> attempt list \<Rightarrow>
   action list \<times> (string \<times> gmgn_stats option) outcome" where
  "evaluate_trader min_pnl30 min_roi top_n cb trace =
     (case sync_fetch cb trace of
        (acts, Pending, rest) \<Rightarrow> (acts, Pending)
      | (acts, Raises e, rest) \<Rightarrow> (acts, Raises e)
      | (acts, Returns d, rest) \<Rightarrow>
          if dict_empty d then (acts, Returns (''JSON_FAIL'', None))
          else (case get_wallet_holdings cb rest of
              (acts2, Pending, rest2) \<Rightarrow> (acts @ acts2, Pending)
            | (acts2, Raises e, rest2) \<Rightarrow> (acts @ acts2, Raises e)
            | (acts2, Returns hs, rest2) \<Rightarrow>
                (case build_stats d (py_slice_to top_n hs) of
                   Inl e \<Rightarrow> (acts @ acts2, Raises e)
                 | Inr stats \<Rightarrow>
                     (acts @ acts2,
                      Returns (apply_filters min_pnl30 min_roi stats, Some stats)))))"

section \<open>The wallet list: scrapers/bullx.py and \<open>fetch_traders_data\<close>\<close>

text \<open>
  A holder as BullX reports it. \<open>address\<close> is the empty string when the key is missing
  or empty: both are falsy, and both filters below drop such an entry before any code
  reads the key again. An entry of the holders array that is no JSON object is
  \<open>NonDict\<close>.
\<close>

record trader =
  address :: string
  totalBoughtUSD :: "rat option"
  totalSoldUSD :: "rat option"
  currentlyHoldingAmount :: "rat option"
  totalBuyTransactions :: "int option"
  totalSellTransactions :: "int option"

datatype holder = NonDict | HolderDict trader

text \<open>
  An exception of the wallet-list request: \<open>status_code\<close> is that of \<open>e.response\<close>
  when the exception carries a response, \<open>message\<close> is \<open>str(e)\<close>.
\<close>

record exn =
  status_code :: "int option"
  message :: string

datatype bullx_reply = BullxRaises exn | BullxHolders "holder list"

definition fetch_top500_traders :: "bullx_reply \<Rightarrow> exn + holder list" where
  "fetch_top500_traders r =
     (case r of
        BullxRaises e \<Rightarrow> Inl e
      | BullxHolders hs \<Rightarrow>
          Inr (filter (\<lambda>h. case h of NonDict \<Rightarrow> False | HolderDict t \<Rightarrow> address t \<noteq> []) hs))"

section \<open>The result store and the processor state\<close>

text \<open>
  The two tables are maps from their primary keys, so \<open>INSERT OR REPLACE\<close> is a map
  update; the timestamp column is left out. \<open>RatioOf q\<close> stands for the text
  \<open>f"{q:.2f}x"\<close> and \<open>RatioZero\<close> for \<open>"0.0x"\<close>. \<open>events\<close> records, in order, the calls
  the processor makes to its collaborators: the three callbacks (recorded whether or not
  a callback is set), the wallet-list request and the evaluation of a wallet. Writes to
  the store succeed and the callbacks return, so no exception comes from them; logging
  is left out.
\<close>

datatype ratio_text = RatioZero | RatioOf rat

record combined_stats =
  total_bought_usd :: rat
  total_sold_usd :: rat
  realized_profit_usd :: rat
  realized_profit_ratio :: ratio_text
  currently_holding_amount :: rat
  total_buy_transactions :: int
  total_sell_transactions :: int
  gmgn_part :: "gmgn_stats option"

record trader_row =
  col_token_name :: string
  col_token_symbol :: string
  col_total_bought_usd :: rat
  col_total_sold_usd :: rat
  col_realized_profit_usd :: rat
  col_realized_profit_ratio :: ratio_text
  col_currently_holding_amount :: rat
  col_total_buy_transactions :: int
  col_total_sell_transactions :: int
  col_evaluation_result :: string
  col_tags :: "string list option"
  col_winrate :: pynum
  col_pnl_usd_7d :: pynum
  col_pnl_usd_30d :: pynum
  col_pnl_pct_7d :: pynum
  col_pnl_pct_30d :: pynum
  col_tx_7d :: int
  col_tx_30d :: int
  col_top_holdings :: "(string \<times> pyfloat) list"

record token_row =
  row_token_name :: string
  row_token_symbol :: string
  total_holders :: nat
  passed_traders :: nat

datatype event =
    TokenCallback string
  | FetchTraders string
  | EvaluateTrader string
  | Progress nat nat nat
  | Fatal string

record processor =
  stop_processing :: bool
  current_token_name :: "string option"
  traders :: "string \<times> string \<rightharpoonup> trader_row"
  processed_tokens :: "string \<rightharpoonup> token_row"
  events :: "event list"

text \<open>
  A call either returns, with its value and the state it leaves, or it is still waiting
  for an evaluation that has not returned, in the state reached so far.
\<close>

datatype 'a run = Done 'a processor | Hung processor

definition get_processed_token_addresses :: "processor \<Rightarrow> string set" where
  "get_processed_token_addresses st = dom (processed_tokens st)"

definition mark_token_processed ::
  "string \<Rightarrow> string \<Rightarrow> string \<Rightarrow> nat \<Rightarrow> nat \<Rightarrow> processor \<Rightarrow> processor" where
  "mark_token_processed token_address token_name token_symbol holders passed st =
     st\<lparr>processed_tokens := (processed_tokens st)(token_address \<mapsto>
        \<lparr>row_token_name = token_name, row_token_symbol = token_symbol,
         total_holders = holders, passed_traders = passed\<rparr>)\<rparr>"

definition stop :: "processor \<Rightarrow> processor" where
  "stop st = st\<lparr>stop_processing := True\<rparr>"

definition fatal_callback :: "string \<Rightarrow> processor \<Rightarrow> processor" where
  "fatal_callback msg st = st\<lparr>events := events st @ [Fatal msg]\<rparr>"

definition save_trader_data ::
  "string \<Rightarrow> string \<Rightarrow> string \<Rightarrow> string \<Rightarrow> string \<Rightarrow> combined_stats \<Rightarrow>
   processor \<Rightarrow> processor" where
  "save_trader_data wallet_address token_address token_name token_symbol evaluation_result
     stats st =
     (let tgs = (case gmgn_part stats of None \<Rightarrow> [] | Some g \<Rightarrow> tags g);
          gnum = (\<lambda>f. case gmgn_part stats of
                          None \<Rightarrow> PyFloat (Finite 0)
                        | Some g \<Rightarrow> f g);
          gint = (\<lambda>f. case gmgn_part stats of None \<Rightarrow> 0 | Some g \<Rightarrow> f g)
      in st\<lparr>traders := (traders st)((wallet_address, token_address) \<mapsto>
        \<lparr>col_token_name = token_name,
         col_token_symbol = token_symbol,
         col_total_bought_usd = total_bought_usd stats,
         col_total_sold_usd = total_sold_usd stats,
         col_realized_profit_usd = realized_profit_usd stats,
         col_realized_profit_ratio = realized_profit_ratio stats,
         col_currently_holding_amount = currently_holding_amount stats,
         col_total_buy_transactions = total_buy_transactions stats,
         col_total_sell_transactions = total_sell_transactions stats,
         col_evaluation_result = evaluation_result,
         col_tags = (if tgs = [] then None else Some tgs),
         col_winrate = gnum winrate,
         col_pnl_usd_7d = gnum pnl_usd_7d,
         col_pnl_usd_30d = gnum pnl_usd_30d,
         col_pnl_pct_7d = gnum pnl_pct_7d,
         col_pnl_pct_30d = gnum pnl_pct_30d,
         col_tx_7d = gint tx_7d,
         col_tx_30d = gint tx_30d,
         col_top_holdings =
           (case gmgn_part stats of None \<Rightarrow> [] | Some g \<Rightarrow> top_holdings g)\<rparr>)\<rparr>)"

text \<open>The test for a throttling message used by the wallet-list step and the run loop.\<close>

definition rate_limit_text :: "string \<Rightarrow> bool" where
  "rate_limit_text e \<longleftrightarrow> py_in ''429'' e \<or> py_in ''rate limit'' (py_lower e)"

fun unique_traders_loop ::
  "bool \<Rightarrow> holder list \<Rightarrow> string set \<Rightarrow> trader list \<Rightarrow> trader list option" where
  "unique_traders_loop stopped [] seen_addresses unique_traders = Some unique_traders"
| "unique_traders_loop stopped (h # hs) seen_addresses unique_traders =
     (if stopped then None
      else (case h of
          HolderDict t \<Rightarrow>
            if address t \<noteq> [] \<and> address t \<notin> seen_addresses
            then unique_traders_loop stopped hs (insert (address t) seen_addresses)
                   (unique_traders @ [t])
            else unique_traders_loop stopped hs seen_addresses unique_traders
        | NonDict \<Rightarrow> unique_traders_loop stopped hs seen_addresses unique_traders))"

definition fetch_traders_data ::
  "(string \<Rightarrow> bullx_reply) \<Rightarrow> string \<Rightarrow> processor \<Rightarrow> trader list \<times> processor" where
  "fetch_traders_data bullx token_address st =
     (let st1 = st\<lparr>events := events st @ [FetchTraders token_address]\<rparr>
      in case fetch_top500_traders (bullx token_address) of
          Inr fetched \<Rightarrow>
            (case unique_traders_loop (stop_processing st1) fetched {} [] of
               None \<Rightarrow> ([], st1)
             | Some unique_traders \<Rightarrow> (unique_traders, st1))
        | Inl e \<Rightarrow>
            if status_code e = Some 429
            then ([], fatal_callback ''API Error 429: Rate limit hit. Stopping processor.''
                        (stop st1))
            else if rate_limit_text (message e)
            then ([], fatal_callback (''API Error: '' @ message e @ ''. Stopping processor.'')
                        (stop st1))
            else ([], st1))"

section \<open>The coordinator: \<open>process_single_token\<close> and \<open>process_all_tokens\<close>\<close>

definition is_space :: "char \<Rightarrow> bool" where
  "is_space c = (let n = (of_char c :: nat) in (9 \<le> n \<and> n \<le> 13) \<or> (28 \<le> n \<and> n \<le> 32))"

text \<open>\<open>token_name.split()[0]\<close>, which raises \<open>IndexError\<close> on a blank name.\<close>

definition first_word :: "string \<Rightarrow> string + string" where
  "first_word s =
     (let w = takeWhile (\<lambda>c. \<not> is_space c) (dropWhile is_space s)
      in if w = [] then Inl ''list index out of range'' else Inr w)"

definition token_symbol_of :: "string \<Rightarrow> string + string" where
  "token_symbol_of token_name =
     (if token_name = ''UNKNOWN'' then Inr ''UNKNOWN''
      else if CHR ''('' \<in> set token_name \<and> CHR '')'' \<in> set token_name
      then (let symbol_match =
                  rev (dropWhile (\<lambda>c. c = CHR '')'')
                         (takeWhile (\<lambda>c. c \<noteq> CHR ''('') (rev token_name)))
            in if symbol_match \<noteq> [] then Inr symbol_match else first_word token_name)
      else first_word token_name)"

definition error_stats :: combined_stats where
  "error_stats = \<lparr>total_bought_usd = 0, total_sold_usd = 0, realized_profit_usd = 0,
     realized_profit_ratio = RatioZero, currently_holding_amount = 0,
     total_buy_transactions = 0, total_sell_transactions = 0, gmgn_part = None\<rparr>"

definition stop_signal_text :: "string \<Rightarrow> bool" where
  "stop_signal_text e \<longleftrightarrow>
     py_in ''429'' e \<or> py_in ''rate limit'' (py_lower e) \<or> py_in ''stopped by user'' (py_lower e)"

text \<open>
  \<open>evaluate_and_save\<close> for one wallet, once it holds the semaphore. \<open>evaluation\<close> is
  what \<open>await evaluate_trader(wallet, ...)\<close> does for this wallet: it returns, it raises
  an exception with the given text, or it has not returned. \<open>passed\<close> is the counter
  \<open>passed_traders\<close> of the enclosing call.
\<close>

definition evaluate_and_save ::
  "string \<Rightarrow> string \<Rightarrow> string \<Rightarrow> trader \<Rightarrow> (string \<times> gmgn_stats option) outcome \<Rightarrow>
   nat \<Rightarrow> processor \<Rightarrow> nat run" where
  "evaluate_and_save token_address token_name token_symbol trader_data evaluation passed st =
     (let wallet = address trader_data
      in if stop_processing st then Done passed st
         else (let st1 = st\<lparr>events := events st @ [EvaluateTrader wallet]\<rparr>
               in case evaluation of
                   Pending \<Rightarrow> Hung st1
                 | Returns (reason, gmgn_stats) \<Rightarrow>
                     (let bought_usd = dict_get (totalBoughtUSD trader_data) 0;
                          sold_usd = dict_get (totalSoldUSD trader_data) 0;
                          combined =
                            \<lparr>total_bought_usd = bought_usd,
                             total_sold_usd = sold_usd,
                             realized_profit_usd = sold_usd - bought_usd,
                             realized_profit_ratio =
                               (if bought_usd > 0 then RatioOf (sold_usd / bought_usd)
                                else RatioZero),
                             currently_holding_amount =
                               dict_get (currentlyHoldingAmount trader_data) 0,
                             total_buy_transactions =
                               dict_get (totalBuyTransactions trader_data) 0,
                             total_sell_transactions =
                               dict_get (totalSellTransactions trader_data) 0,
                             gmgn_part = gmgn_stats\<rparr>;
                          st2 = save_trader_data wallet token_address token_name token_symbol
                                  reason combined st1
                      in Done (if reason = ''PASS'' then passed + 1 else passed) st2)
                 | Raises e \<Rightarrow>
                     if stop_signal_text e
                     then Done passed
                            (fatal_callback
                               (''API Error or stop signal: '' @ e @ ''. Stopping processor.'')
                               (stop st1))
                     else Done passed
                            (save_trader_data wallet token_address token_name token_symbol
                               ''ERROR'' error_stats st1)))"

text \<open>
  The tasks of one target, taking the semaphore one at a time in list order (the
  schedule of a concurrency limit of one). \<open>evaluate_with_progress\<close> adds the completion
  counter and the progress report; its own first test of the stop flag is made by every
  task when the tasks start, before any evaluation has finished, and is the test of
  \<open>run_tasks\<close>. Its handler is never entered, since \<open>evaluate_and_save\<close> catches
  every exception of the evaluation.
\<close>

fun evaluate_with_progress ::
  "(string \<Rightarrow> string \<Rightarrow> (string \<times> gmgn_stats option) outcome) \<Rightarrow>
   string \<Rightarrow> string \<Rightarrow> string \<Rightarrow> nat \<Rightarrow> trader list \<Rightarrow> nat \<times> nat \<Rightarrow> processor \<Rightarrow>
   (nat \<times> nat) run" where
  "evaluate_with_progress gmgn token_address token_name token_symbol total_traders []
     (passed, completed) st = Done (passed, completed) st"
| "evaluate_with_progress gmgn token_address token_name token_symbol total_traders (t # ts)
     (passed, completed) st =
     (case evaluate_and_save token_address token_name token_symbol t
             (gmgn token_address (address t)) passed st of
        Hung st' \<Rightarrow> Hung st'
      | Done passed' st' \<Rightarrow>
          (let completed' = completed + 1;
               st'' = (if completed' mod 10 = 0 \<or> completed' = total_traders
                       then st'\<lparr>events := events st' @
                              [Progress completed' total_traders passed']\<rparr>
                       else st')
           in evaluate_with_progress gmgn token_address token_name token_symbol
                total_traders ts (passed', completed') st''))"

definition run_tasks ::
  "(string \<Rightarrow> string \<Rightarrow> (string \<times> gmgn_stats option) outcome) \<Rightarrow>
   string \<Rightarrow> string \<Rightarrow> string \<Rightarrow> trader list \<Rightarrow> processor \<Rightarrow> (nat \<times> nat) run" where
  "run_tasks gmgn token_address token_name token_symbol traders_data st =
     (if stop_processing st then Done (0, 0) st
      else evaluate_with_progress gmgn token_address token_name token_symbol
             (length traders_data) traders_data (0, 0) st)"

record token_result =
  res_token_address :: string
  res_token_name :: string
  total_traders :: nat
  res_passed_traders :: nat

definition process_single_token ::
  "(string \<Rightarrow> bullx_reply) \<Rightarrow>
   (string \<Rightarrow> string \<Rightarrow> (string \<times> gmgn_stats option) outcome) \<Rightarrow>
   string \<Rightarrow> string \<Rightarrow> processor \<Rightarrow> (string + token_result) run" where
  "process_single_token bullx gmgn token_address token_name st =
     (let st1 = st\<lparr>current_token_name := Some token_name,
                   events := events st @ [TokenCallback token_name]\<rparr>
      in case token_symbol_of token_name of
          Inl e \<Rightarrow> Done (Inl e) st1
        | Inr token_symbol \<Rightarrow>
            (case fetch_traders_data bullx token_address st1 of
               (traders_data, st2) \<Rightarrow>
                 if traders_data = []
                 then Done (Inr \<lparr>res_token_address = token_address,
                                 res_token_name = token_name,
                                 total_traders = 0, res_passed_traders = 0\<rparr>)
                        (mark_token_processed token_address token_name token_symbol 0 0 st2)
                 else (case run_tasks gmgn token_address token_name token_symbol
                              traders_data st2 of
                     Hung st3 \<Rightarrow> Hung st3
                   | Done (passed, completed) st3 \<Rightarrow>
                       (let st4 = mark_token_processed token_address token_name
                                    token_symbol (length traders_data) passed st3
                        in if stop_processing st4
                           then Done (Inl ''Processing stopped by user'') st4
                           else Done (Inr \<lparr>res_token_address = token_address,
                                           res_token_name = token_name,
                                           total_traders = length traders_data,
                                           res_passed_traders = passed\<rparr>) st4))))"

fun token_loop ::
  "(string \<Rightarrow> bullx_reply) \<Rightarrow>
   (string \<Rightarrow> string \<Rightarrow> (string \<times> gmgn_stats option) outcome) \<Rightarrow>
   (string \<times> string) list \<Rightarrow> token_result list \<Rightarrow> processor \<Rightarrow> token_result list run" where
  "token_loop bullx gmgn [] results st = Done results st"
| "token_loop bullx gmgn ((token_address, token_name) # ts) results st =
     (if stop_processing st then Done results st
      else (case process_single_token bullx gmgn token_address token_name st of
          Hung st' \<Rightarrow> Hung st'
        | Done (Inr result) st' \<Rightarrow> token_loop bullx gmgn ts (results @ [result]) st'
        | Done (Inl e) st' \<Rightarrow>
            if rate_limit_text e
            then Done results
                   (fatal_callback (''API Error: '' @ e @ ''. Stopping processor.'') (stop st'))
            else token_loop bullx gmgn ts results st'))"

text \<open>
  \<open>process_all_tokens\<close> on the target list that \<open>load_tokens\<close> read; the value is the
  list \<open>results\<close> handed to \<open>print_summary\<close>.
\<close>

definition unprocessed_tokens :: "(string \<times> string) list \<Rightarrow> processor \<Rightarrow> (string \<times> string) list" where
  "unprocessed_tokens tokens st =
     filter (\<lambda>(addr, name). addr \<notin> get_processed_token_addresses st) tokens"

definition process_all_tokens ::
  "(string \<Rightarrow> bullx_reply) \<Rightarrow>
   (string \<Rightarrow> string \<Rightarrow> (string \<times> gmgn_stats option) outcome) \<Rightarrow>
   (string \<times> string) list \<Rightarrow> processor \<Rightarrow> token_result list run" where
  "process_all_tokens bullx gmgn tokens st =
     (if unprocessed_tokens tokens st = [] then Done [] st
      else token_loop bullx gmgn (unprocessed_tokens tokens st) [] st)"

section \<open>Notions used to state the properties\<close>










text \<open>The dictionaries among the entries of a holders array, in order.\<close>

fun holder_traders :: "holder list \<Rightarrow> trader list" where
  "holder_traders [] = []"
| "holder_traders (NonDict # hs) = holder_traders hs"
| "holder_traders (HolderDict t # hs) = t # holder_traders hs"

definition addressed :: "holder list \<Rightarrow> trader list" where
  "addressed hs = filter (\<lambda>t. address t \<noteq> []) (holder_traders hs)"


text \<open>
  The state a call has reached, and what it means that a call left a target alone: it
  made no wallet-list request for the target, changed none of its outcome rows and left
  its checkpoint as it was.
\<close>

fun run_state :: "'a run \<Rightarrow> processor" where
  "run_state (Done x st) = st"
| "run_state (Hung st) = st"

definition untouched :: "string \<Rightarrow> processor \<Rightarrow> processor \<Rightarrow> bool" where
  "untouched t st st' \<longleftrightarrow>
     prefix (events st) (events st')
     \<and> FetchTraders t \<notin> set (drop (length (events st)) (events st'))
     \<and> (\<forall>w. traders st' (w, t) = traders st (w, t))
     \<and> processed_tokens st' t = processed_tokens st t"

text \<open>
  The evaluation the coordinator asks for: \<open>evaluate_trader\<close> with its default
  thresholds and the stop predicate \<open>lambda: self.stop_processing\<close>, over the passes
  the upstream grants each wallet of each target.
\<close>

definition evaluation_of ::
  "(string \<Rightarrow> string \<Rightarrow> attempt list) \<Rightarrow> string \<Rightarrow> string \<Rightarrow>
   (string \<times> gmgn_stats option) outcome" where
  "evaluation_of passes token_address wallet =
     snd (evaluate_trader default_min_pnl30 default_min_roi 3 True
            (passes token_address wallet))"

section \<open>Concrete inputs\<close>

definition pass_of :: "response \<Rightarrow> attempt" where
  "pass_of r = \<lparr>stop_at_entry = False, reply = r, stop_at_429 = False\<rparr>"

definition tagged_summary :: gmgn_data where
  "tagged_summary = empty_dict\<lparr>data_tags := Some [''smart_degen'', ''sandwich_bot''],
     pnl_30d := Some (PyInt 5)\<rparr>"

definition winning_holdings :: gmgn_data where
  "winning_holdings = empty_dict\<lparr>data_holdings :=
     Some [\<lparr>token = Some \<lparr>symbol = Some ''WIF''\<rparr>, total_profit_pnl = Some (PyFloat (Finite 2))\<rparr>]\<rparr>"

definition fresh_processor :: processor where
  "fresh_processor = \<lparr>stop_processing = False, current_token_name = None,
     traders = Map.empty, processed_tokens = Map.empty, events = []\<rparr>"

definition wallet_named :: "string \<Rightarrow> trader" where
  "wallet_named a = \<lparr>address = a, totalBoughtUSD = None, totalSoldUSD = None,
     currentlyHoldingAmount = None, totalBuyTransactions = None,
     totalSellTransactions = None\<rparr>"

text \<open>Further concrete inputs: summaries, passes, wallet lists and states.\<close>

definition stopped_pass :: attempt where
  "stopped_pass = \<lparr>stop_at_entry = True, reply = Status429, stop_at_429 = True\<rparr>"

definition huge_roi :: int where
  "huge_roi = 2 ^ 1024"

definition overflowing_holdings :: gmgn_data where
  "overflowing_holdings = empty_dict\<lparr>data_holdings :=
     Some [\<lparr>token = Some \<lparr>symbol = Some ''WIF''\<rparr>, total_profit_pnl = Some (PyInt huge_roi)\<rparr>]\<rparr>"





text \<open>
  The outcome row with reason \<open>ERROR\<close> and zeroed statistics, as \<open>save_trader_data\<close>
  writes it from \<open>error_stats\<close>; what it means that the row of a wallet agrees with its
  evaluation; and an evaluation that ends without asking the run to stop.
\<close>

definition error_row :: "string \<Rightarrow> string \<Rightarrow> trader_row" where
  "error_row token_name token_symbol =
     \<lparr>col_token_name = token_name, col_token_symbol = token_symbol,
      col_total_bought_usd = 0, col_total_sold_usd = 0, col_realized_profit_usd = 0,
      col_realized_profit_ratio = RatioZero, col_currently_holding_amount = 0,
      col_total_buy_transactions = 0, col_total_sell_transactions = 0,
      col_evaluation_result = ''ERROR'', col_tags = None,
      col_winrate = PyFloat (Finite 0), col_pnl_usd_7d = PyFloat (Finite 0),
      col_pnl_usd_30d = PyFloat (Finite 0), col_pnl_pct_7d = PyFloat (Finite 0),
      col_pnl_pct_30d = PyFloat (Finite 0),
      col_tx_7d = 0, col_tx_30d = 0, col_top_holdings = []\<rparr>"

definition row_recorded ::
  "(string \<Rightarrow> string \<Rightarrow> (string \<times> gmgn_stats option) outcome) \<Rightarrow>
   string \<Rightarrow> string \<Rightarrow> string \<Rightarrow> processor \<Rightarrow> trader \<Rightarrow> bool" where
  "row_recorded gmgn token_address token_name token_symbol st t =
     (case gmgn token_address (address t) of
        Returns (reason, g) \<Rightarrow>
          (case traders st (address t, token_address) of
             None \<Rightarrow> False
           | Some row \<Rightarrow> col_evaluation_result row = reason)
      | Raises e \<Rightarrow>
          traders st (address t, token_address) = Some (error_row token_name token_symbol)
      | Pending \<Rightarrow> False)"

definition evaluation_settles :: "(string \<times> gmgn_stats option) outcome \<Rightarrow> bool" where
  "evaluation_settles ev =
     (case ev of Returns r \<Rightarrow> True | Raises e \<Rightarrow> \<not> stop_signal_text e | Pending \<Rightarrow> False)"

definition two_wallets :: "string \<Rightarrow> bullx_reply" where
  "two_wallets token_address =
     BullxHolders [HolderDict (wallet_named ''A''), HolderDict (wallet_named ''B'')]"

definition one_wallet :: "string \<Rightarrow> bullx_reply" where
  "one_wallet token_address = BullxHolders [HolderDict (wallet_named ''A'')]"

definition throttled_passes :: "nat \<Rightarrow> string \<Rightarrow> string \<Rightarrow> attempt list" where
  "throttled_passes n token_address wallet = replicate n (pass_of Status429)"

definition server_error :: "string \<Rightarrow> bullx_reply" where
  "server_error token_address =
     BullxRaises \<lparr>status_code = Some 500, message = ''Server error 500 Internal Server Error''\<rparr>"

definition checkpointed_empty :: processor where
  "checkpointed_empty = \<lparr>stop_processing = False, current_token_name = Some ''Token (TK)'',
     traders = Map.empty,
     processed_tokens = [''T1'' \<mapsto> \<lparr>row_token_name = ''Token (TK)'', row_token_symbol = ''TK'',
        total_holders = 0, passed_traders = 0\<rparr>],
     events = [TokenCallback ''Token (TK)'', FetchTraders ''T1'']\<rparr>"

definition both_checkpointed :: processor where
  "both_checkpointed = \<lparr>stop_processing = False, current_token_name = None,
     traders = Map.empty,
     processed_tokens = [''T1'' \<mapsto> \<lparr>row_token_name = ''Token (TK)'', row_token_symbol = ''TK'',
        total_holders = 2, passed_traders = 1\<rparr>,
       ''T2'' \<mapsto> \<lparr>row_token_name = ''UNKNOWN'', row_token_symbol = ''UNKNOWN'',
        total_holders = 0, passed_traders = 0\<rparr>],
     events = []\<rparr>"

definition throttled_list :: "string \<Rightarrow> bullx_reply" where
  "throttled_list token_address =
     BullxRaises \<lparr>status_code = Some 429, message = ''Client error 429 Too Many Requests''\<rparr>"

definition failing_evaluations ::
  "string \<Rightarrow> string \<Rightarrow> (string \<times> gmgn_stats option) outcome" where
  "failing_evaluations token_address wallet =
     (if wallet = ''A'' then Raises ''float() argument must be a string or a real number''
      else Returns (''JSON_FAIL'', None))"


section \<open>Properties\<close>

subsection \<open>The retry policy of the fetch client\<close>









subsection \<open>The filters of the evaluator\<close>

lemma data_tags_nonempty: "data_tags d = Some ts \<Longrightarrow> \<not> dict_empty d"
  by (auto simp: dict_empty_def empty_dict_def)

lemma evaluate_trader_fetched:
  assumes "sync_fetch cb trace = (acts, Returns d, rest)"
    and "get_wallet_holdings cb rest = (acts2, Returns hs, rest2)"
    and "\<not> dict_empty d"
    and "build_stats d (py_slice_to top_n hs) = Inr stats"
  shows "evaluate_trader min_pnl30 min_roi top_n cb trace =
           (acts @ acts2, Returns (apply_filters min_pnl30 min_roi stats, Some stats))"
  using assms by (simp add: evaluate_trader_def)

lemma build_stats_sel:
  assumes "build_stats d hs = Inr stats"
  shows "tags stats = dict_get (data_tags d) []"
    and "pnl_pct_30d stats = dict_get (pnl_30d d) (PyFloat (Finite 0))"
  using assms by (auto simp: build_stats_def make_stats_def split: sum.splits)




lemma bit_length_pow2: "bit_length (2 ^ n) = Suc n"
proof (induction n)
  case 0
  show ?case by (simp add: bit_length.simps[of "Suc 0"] bit_length.simps[of 0])
next
  case (Suc n)
  have "bit_length (2 ^ Suc n) = Suc (bit_length (2 ^ Suc n div 2))"
    by (subst bit_length.simps) simp
  then show ?case using Suc by simp
qed

lemma float_overflow: "py_float (PyInt huge_roi) = Inl ''int too large to convert to float''"
proof -
  have a: "nat \<bar>huge_roi\<bar> = 2 ^ 1024"
    by (simp add: huge_roi_def nat_power_eq)
  have q: "(2::nat) ^ 1024 div 2 ^ 972 = 2 ^ 52"
    by (simp add: power_diff[symmetric])
  have r: "(2::nat) ^ 1024 mod 2 ^ 972 = 0"
    by (simp add: le_imp_power_dvd)
  have m: "(2::nat) ^ 52 * 2 ^ 972 = 2 ^ 1024"
    by (simp add: power_add[symmetric])
  show ?thesis
    unfolding py_float_def float_of_int_def
    by (simp only: pynum.case a bit_length_pow2 Let_def q r m) simp
qed

text \<open>
  Claim C3, amended. The filters apply in order and the first match wins: when the
  fetched summary carries the tag \<open>sandwich_bot\<close> (such a summary is not empty), the
  holdings fetch returns and the statistics are built, that is, the ROI of each of the
  first \<open>top_n\<close> holdings converts to a float, \<open>evaluate_trader\<close> returns
  \<open>TAG_sandwich_bot\<close> with those statistics, whatever the 30-day PnL percent, the ROIs
  and the thresholds are.
\<close>

theorem evaluate_trader_tag_first:
  assumes "sync_fetch cb trace = (acts, Returns d, rest)"
    and "get_wallet_holdings cb rest = (acts2, Returns hs, rest2)"
    and "data_tags d = Some ts" and "''sandwich_bot'' \<in> set ts"
    and "build_stats d (py_slice_to top_n hs) = Inr stats"
  shows "evaluate_trader min_pnl30 min_roi top_n cb trace =
           (acts @ acts2, Returns (''TAG_sandwich_bot'', Some stats))"
proof -
  have "tags stats = ts"
    using build_stats_sel(1)[OF assms(5)] assms(3) by (simp add: dict_get_def)
  then have "apply_filters min_pnl30 min_roi stats = ''TAG_sandwich_bot''"
    using assms(4) by (simp add: apply_filters_def)
  then show ?thesis
    using evaluate_trader_fetched[OF assms(1,2) data_tags_nonempty[OF assms(3)] assms(5)]
    by simp
qed

text \<open>
  Claim C3, amended, at a concrete input: a tagged wallet with a 30-day PnL of 5 and a
  holding with ROI 2, which would pass both later filters.
\<close>

theorem evaluate_trader_tag_first_witness:
  "evaluate_trader default_min_pnl30 default_min_roi 3 True
     [pass_of (Payload (Some 0) (Some tagged_summary)),
      pass_of (Payload (Some 0) (Some winning_holdings))] =
   ([WaitSlot, HttpGet, WaitSlot, HttpGet],
    Returns (''TAG_sandwich_bot'',
      Some \<lparr>tags = [''smart_degen'', ''sandwich_bot''], winrate = PyFloat (Finite 0),
            pnl_usd_7d = PyFloat (Finite 0), pnl_usd_30d = PyFloat (Finite 0),
            pnl_pct_7d = PyFloat (Finite 0), pnl_pct_30d = PyInt 5, tx_7d = 0, tx_30d = 0,
            top_holdings = [(''WIF'', Finite 2)]\<rparr>))"
  using evaluate_trader_tag_first
    [of True "[pass_of (Payload (Some 0) (Some tagged_summary)),
               pass_of (Payload (Some 0) (Some winning_holdings))]"
        "[WaitSlot, HttpGet]" tagged_summary
        "[pass_of (Payload (Some 0) (Some winning_holdings))]"
        "[WaitSlot, HttpGet]"
        "[\<lparr>token = Some \<lparr>symbol = Some ''WIF''\<rparr>, total_profit_pnl = Some (PyFloat (Finite 2))\<rparr>]"
        "[]" "[''smart_degen'', ''sandwich_bot'']" 3
        "\<lparr>tags = [''smart_degen'', ''sandwich_bot''], winrate = PyFloat (Finite 0),
            pnl_usd_7d = PyFloat (Finite 0), pnl_usd_30d = PyFloat (Finite 0),
            pnl_pct_7d = PyFloat (Finite 0), pnl_pct_30d = PyInt 5, tx_7d = 0, tx_30d = 0,
            top_holdings = [(''WIF'', Finite 2)]\<rparr>"
        default_min_pnl30 default_min_roi]
  by (simp add: sync_fetch_def pass_of_def tagged_summary_def winning_holdings_def
        empty_dict_def dict_get_def get_wallet_holdings_def build_stats_def make_stats_def
        py_slice_to_def holding_symbol_def py_float_def)

text \<open>
  Claim C3 as stated fails. The tag test runs only after the holdings fetch and the
  building of the statistics. For a tagged summary, the evaluation raises
  \<open>Processing stopped by user\<close> when the stop predicate is true at the holdings fetch,
  and raises \<open>OverflowError\<close> when the ROI of a holding is the integer \<open>2 ^ 1024\<close>; in
  neither case does it return \<open>TAG_sandwich_bot\<close>.
\<close>

theorem tag_first_counterexample:
  "evaluate_trader default_min_pnl30 default_min_roi 3 True
     [pass_of (Payload (Some 0) (Some tagged_summary)), stopped_pass] =
   ([WaitSlot, HttpGet, WaitSlot], Raises ''Processing stopped by user'')
   \<and> evaluate_trader default_min_pnl30 default_min_roi 3 True
     [pass_of (Payload (Some 0) (Some tagged_summary)),
      pass_of (Payload (Some 0) (Some overflowing_holdings))] =
   ([WaitSlot, HttpGet, WaitSlot, HttpGet], Raises ''int too large to convert to float'')"
  by (simp add: evaluate_trader_def sync_fetch_def pass_of_def stopped_pass_def
        tagged_summary_def overflowing_holdings_def empty_dict_def dict_empty_def dict_get_def
        get_wallet_holdings_def build_stats_def py_slice_to_def float_overflow)






subsection \<open>Cancellation inside the fetch client\<close>

text \<open>
  Claim C6. The claim says that a stop predicate that is true at the check before the
  HTTP 429 retry sleep makes the operation fail at once. At this input the predicate is
  false when the pass opens and true from the check of the HTTP 429 branch on: the
  exception raised there is caught by the handler of the same \<open>try\<close> block, so the loop
  sleeps five seconds and waits for the rate limiter again before the next pass raises.
\<close>

theorem sync_fetch_stop_at_429_delayed:
  "sync_fetch True
     [\<lparr>stop_at_entry = False, reply = Status429, stop_at_429 = True\<rparr>,
      \<lparr>stop_at_entry = True, reply = Status429, stop_at_429 = True\<rparr>] =
   ([WaitSlot, HttpGet, Sleep 5 0, WaitSlot], Raises ''Processing stopped by user'', [])"
  by (simp add: sync_fetch_def retry_def)

lemma sync_fetch_stop_at_entry:
  "cb \<Longrightarrow> stop_at_entry a \<Longrightarrow>
     sync_fetch cb (a # rest) = ([WaitSlot], Raises ''Processing stopped by user'', rest)"
  by (simp add: sync_fetch_def)

subsection \<open>Deduplication of the wallet list\<close>

lemma addressed_simps [simp]:
  "addressed [] = []"
  "addressed (NonDict # hs) = addressed hs"
  "addressed (HolderDict t # hs) = (if address t \<noteq> [] then t # addressed hs else addressed hs)"
  by (simp_all add: addressed_def)






subsection \<open>Targets a run leaves alone\<close>

lemma untouched_iff:
  "untouched t st st' \<longleftrightarrow>
     (\<exists>new. events st' = events st @ new \<and> FetchTraders t \<notin> set new)
     \<and> (\<forall>w. traders st' (w, t) = traders st (w, t))
     \<and> processed_tokens st' t = processed_tokens st t"
  by (auto simp: untouched_def prefix_def)

lemma untouched_refl: "untouched t st st"
  by (simp add: untouched_iff)

lemma untouched_trans: "untouched t a b \<Longrightarrow> untouched t b c \<Longrightarrow> untouched t a c"
  by (auto simp: untouched_iff)

lemma untouched_fatal: "untouched t st (fatal_callback msg st)"
  by (simp add: untouched_iff fatal_callback_def)

lemma untouched_stop: "untouched t st (stop st)"
  by (simp add: untouched_iff stop_def)

lemma untouched_save:
  "a \<noteq> t \<Longrightarrow> untouched t st (save_trader_data w a n s r cs st)"
  by (simp add: untouched_iff save_trader_data_def Let_def)

lemma untouched_mark:
  "a \<noteq> t \<Longrightarrow> untouched t st (mark_token_processed a n s h p st)"
  by (simp add: untouched_iff mark_token_processed_def)

lemma untouched_event:
  "e \<noteq> FetchTraders t \<Longrightarrow> untouched t st (st\<lparr>events := events st @ [e]\<rparr>)"
  by (simp add: untouched_iff)

lemma untouched_evaluate_and_save:
  assumes "a \<noteq> t"
  shows "untouched t st (run_state (evaluate_and_save a n s tr ev p st))"
proof -
  let ?st1 = "st\<lparr>events := events st @ [EvaluateTrader (address tr)]\<rparr>"
  have 1: "untouched t st ?st1" by (rule untouched_event) simp
  show ?thesis
  proof (cases "stop_processing st")
    case True
    then show ?thesis by (simp add: evaluate_and_save_def untouched_refl)
  next
    case False
    show ?thesis
    proof (cases ev)
      case (Returns rs)
      obtain reason g where rs: "rs = (reason, g)" by (cases rs)
      show ?thesis
        using False Returns rs
        by (auto simp: evaluate_and_save_def Let_def
              intro!: untouched_trans[OF 1] untouched_save[OF assms])
    next
      case (Raises e)
      show ?thesis
        using False Raises
        by (auto simp: evaluate_and_save_def Let_def
              intro!: untouched_trans[OF 1] untouched_save[OF assms]
                      untouched_trans[OF untouched_stop untouched_fatal])
    next
      case Pending
      then show ?thesis using False 1 by (simp add: evaluate_and_save_def Let_def)
    qed
  qed
qed

lemma untouched_evaluate_with_progress:
  assumes "a \<noteq> t"
  shows "untouched t st (run_state (evaluate_with_progress gmgn a n s tot ts pc st))"
proof (induction ts arbitrary: pc st)
  case Nil
  show ?case by (cases pc) (simp add: untouched_refl)
next
  case (Cons tr ts)
  obtain p c where pc: "pc = (p, c)" by (cases pc)
  show ?case
  proof (cases "evaluate_and_save a n s tr (gmgn a (address tr)) p st")
    case (Hung st')
    then show ?thesis
      using untouched_evaluate_and_save[OF assms, of st n s tr "gmgn a (address tr)" p] pc
      by simp
  next
    case (Done p' st')
    have 1: "untouched t st st'"
      using untouched_evaluate_and_save[OF assms, of st n s tr "gmgn a (address tr)" p] Done
      by simp
    let ?st'' = "if (c + 1) mod 10 = 0 \<or> c + 1 = tot
                 then st'\<lparr>events := events st' @ [Progress (c + 1) tot p']\<rparr> else st'"
    have 2: "untouched t st' ?st''"
      by (simp add: untouched_refl untouched_event)
    have 3: "untouched t ?st'' (run_state (evaluate_with_progress gmgn a n s tot ts (p', c + 1) ?st''))"
      by (rule Cons.IH)
    have "evaluate_with_progress gmgn a n s tot (tr # ts) pc st
            = evaluate_with_progress gmgn a n s tot ts (p', c + 1) ?st''"
      using Done pc by (simp add: Let_def)
    then show ?thesis
      using untouched_trans[OF 1 untouched_trans[OF 2 3]] by simp
  qed
qed

lemma untouched_run_tasks:
  "a \<noteq> t \<Longrightarrow> untouched t st (run_state (run_tasks gmgn a n s ts st))"
  by (simp add: run_tasks_def untouched_refl untouched_evaluate_with_progress)

lemma untouched_fetch_traders_data:
  assumes "a \<noteq> t"
  shows "untouched t st (snd (fetch_traders_data bullx a st))"
proof -
  let ?st1 = "st\<lparr>events := events st @ [FetchTraders a]\<rparr>"
  have 1: "untouched t st ?st1" using assms by (intro untouched_event) simp
  have 2: "untouched t ?st1 (fatal_callback m (stop ?st1))" for m
    by (rule untouched_trans[OF untouched_stop untouched_fatal])
  show ?thesis
    using untouched_trans[OF 1 2] 1
    by (auto simp: fetch_traders_data_def Let_def split: sum.splits option.splits)
qed

lemma untouched_process_single_token:
  assumes "a \<noteq> t"
  shows "untouched t st (run_state (process_single_token bullx gmgn a n st))"
proof -
  let ?st1 = "st\<lparr>current_token_name := Some n, events := events st @ [TokenCallback n]\<rparr>"
  have 1: "untouched t st ?st1" by (simp add: untouched_iff)
  show ?thesis
  proof (cases "token_symbol_of n")
    case (Inl e)
    then show ?thesis using 1 by (simp add: process_single_token_def Let_def)
  next
    case (Inr s)
    obtain td st2 where f: "fetch_traders_data bullx a ?st1 = (td, st2)"
      by (cases "fetch_traders_data bullx a ?st1")
    have 2: "untouched t ?st1 st2"
      using untouched_fetch_traders_data[OF assms, of ?st1 bullx] f by simp
    have 12: "untouched t st st2" by (rule untouched_trans[OF 1 2])
    show ?thesis
    proof (cases "td = []")
      case True
      then show ?thesis
        using Inr f untouched_trans[OF 12 untouched_mark[OF assms]]
        by (simp add: process_single_token_def Let_def)
    next
      case False
      have 3: "untouched t st2 (run_state (run_tasks gmgn a n s td st2))"
        by (rule untouched_run_tasks[OF assms])
      show ?thesis
      proof (cases "run_tasks gmgn a n s td st2")
        case (Hung st3)
        then show ?thesis
          using Inr f False untouched_trans[OF 12 3]
          by (simp add: process_single_token_def Let_def)
      next
        case (Done pc st3)
        obtain p c where pc: "pc = (p, c)" by (cases pc)
        have "untouched t st (mark_token_processed a n s (length td) p st3)"
          using untouched_trans[OF untouched_trans[OF 12 3] untouched_mark[OF assms]] Done
          by simp
        then show ?thesis
          using Inr f False Done pc
          by (simp add: process_single_token_def Let_def)
      qed
    qed
  qed
qed

lemma untouched_token_loop:
  assumes "\<forall>(a, n) \<in> set ts. a \<noteq> t"
  shows "untouched t st (run_state (token_loop bullx gmgn ts results st))"
  using assms
proof (induction ts arbitrary: results st)
  case Nil
  show ?case by (simp add: untouched_refl)
next
  case (Cons an ts)
  obtain a n where an: "an = (a, n)" by (cases an)
  have at: "a \<noteq> t" using Cons.prems an by simp
  have rest: "\<forall>(a, n) \<in> set ts. a \<noteq> t" using Cons.prems by simp
  show ?case
  proof (cases "stop_processing st")
    case True
    then show ?thesis using an by (simp add: untouched_refl)
  next
    case False
    have 1: "untouched t st (run_state (process_single_token bullx gmgn a n st))"
      by (rule untouched_process_single_token[OF at])
    show ?thesis
    proof (cases "process_single_token bullx gmgn a n st")
      case (Hung st')
      then show ?thesis using False an 1 by simp
    next
      case (Done r st')
      have s1: "untouched t st st'" using 1 Done by simp
      show ?thesis
      proof (cases r)
        case (Inr res)
        then show ?thesis
          using False an Done untouched_trans[OF s1 Cons.IH[OF rest]] by simp
      next
        case (Inl e)
        show ?thesis
        proof (cases "rate_limit_text e")
          case True
          have "untouched t st
                  (fatal_callback (''API Error: '' @ e @ ''. Stopping processor.'') (stop st'))"
            by (rule untouched_trans[OF s1 untouched_trans[OF untouched_stop untouched_fatal]])
          then show ?thesis using False an Done Inl True by simp
        next
          case nrl: False
          then show ?thesis
            using False an Done Inl untouched_trans[OF s1 Cons.IH[OF rest]] by simp
        qed
      qed
    qed
  qed
qed

lemma untouched_process_all_tokens:
  assumes "t \<in> get_processed_token_addresses st"
  shows "untouched t st (run_state (process_all_tokens bullx gmgn tokens st))"
proof -
  have "\<forall>(a, n) \<in> set (unprocessed_tokens tokens st). a \<noteq> t"
    using assms by (auto simp: unprocessed_tokens_def)
  then show ?thesis
    by (simp add: process_all_tokens_def untouched_refl untouched_token_loop)
qed

text \<open>
  Claim C8. When every target of the target list is checkpointed, the list of
  unprocessed targets is empty and \<open>process_all_tokens\<close> returns at once with the
  state as it found it: no wallet-list request, no evaluation, no row and no checkpoint
  is written, whatever the upstream would answer.
\<close>

theorem process_all_tokens_rerun:
  assumes "\<forall>(addr, name) \<in> set tokens. addr \<in> get_processed_token_addresses st"
  shows "unprocessed_tokens tokens st = []
         \<and> process_all_tokens bullx gmgn tokens st = Done [] st"
proof -
  have "unprocessed_tokens tokens st = []"
    using assms by (auto simp: unprocessed_tokens_def filter_empty_conv)
  then show ?thesis by (simp add: process_all_tokens_def)
qed

subsection \<open>Outcome rows of a target\<close>

lemma save_error_row:
  "traders (save_trader_data w a n s ''ERROR'' error_stats st) (w, a) = Some (error_row n s)"
  by (simp add: save_trader_data_def error_stats_def error_row_def)

lemma save_other_rows:
  "k \<noteq> (w, a) \<Longrightarrow> traders (save_trader_data w a n s r cs st) k = traders st k"
  by (simp add: save_trader_data_def Let_def)

lemma save_result_row:
  "\<exists>row. traders (save_trader_data w a n s r cs st) (w, a) = Some row
         \<and> col_evaluation_result row = r"
  by (simp add: save_trader_data_def Let_def)

lemma save_stop_flag [simp]:
  "stop_processing (save_trader_data w a n s r cs st) = stop_processing st"
  by (simp add: save_trader_data_def Let_def)

lemma evaluate_and_save_returns:
  assumes "\<not> stop_processing st"
  shows "\<exists>cs. evaluate_and_save a n s t (Returns (reason, g)) p st =
           Done (if reason = ''PASS'' then p + 1 else p)
             (save_trader_data (address t) a n s reason cs
                (st\<lparr>events := events st @ [EvaluateTrader (address t)]\<rparr>))"
  using assms
  by (simp add: evaluate_and_save_def Let_def split del: if_split) (rule exI, rule refl)

lemma evaluate_and_save_settles:
  assumes "\<not> stop_processing st" and "evaluation_settles (gmgn a (address t))"
  shows "\<exists>p' st'. evaluate_and_save a n s t (gmgn a (address t)) p st = Done p' st'
           \<and> \<not> stop_processing st'
           \<and> row_recorded gmgn a n s st' t
           \<and> (\<forall>k. k \<noteq> (address t, a) \<longrightarrow> traders st' k = traders st k)"
proof (cases "gmgn a (address t)")
  case (Returns rg)
  obtain reason g where rg: "rg = (reason, g)" by (cases rg)
  let ?st1 = "st\<lparr>events := events st @ [EvaluateTrader (address t)]\<rparr>"
  obtain cs where cs: "evaluate_and_save a n s t (gmgn a (address t)) p st =
           Done (if reason = ''PASS'' then p + 1 else p)
             (save_trader_data (address t) a n s reason cs ?st1)"
    using evaluate_and_save_returns[OF assms(1), of a n s t reason g p] Returns rg by auto
  obtain row where row: "traders (save_trader_data (address t) a n s reason cs ?st1)
                           (address t, a) = Some row" "col_evaluation_result row = reason"
    using save_result_row by blast
  have "row_recorded gmgn a n s (save_trader_data (address t) a n s reason cs ?st1) t"
    using Returns rg row by (simp add: row_recorded_def)
  moreover have "\<forall>k. k \<noteq> (address t, a) \<longrightarrow>
      traders (save_trader_data (address t) a n s reason cs ?st1) k = traders st k"
    by (simp add: save_other_rows)
  moreover have "\<not> stop_processing (save_trader_data (address t) a n s reason cs ?st1)"
    using assms(1) by simp
  ultimately show ?thesis using cs by blast
next
  case (Raises e)
  then have ns: "\<not> stop_signal_text e" using assms(2) by (simp add: evaluation_settles_def)
  show ?thesis
    using assms(1) Raises ns
    by (simp add: evaluate_and_save_def Let_def row_recorded_def save_error_row save_other_rows)
next
  case Pending
  then show ?thesis using assms(2) by (simp add: evaluation_settles_def)
qed

lemma row_recorded_cong:
  "traders st' (address t, a) = traders st (address t, a) \<Longrightarrow>
     row_recorded gmgn a n s st' t = row_recorded gmgn a n s st t"
  by (simp add: row_recorded_def split: outcome.splits prod.splits)

lemma row_recorded_address:
  "address t = address u \<Longrightarrow>
     row_recorded gmgn a n s st t = row_recorded gmgn a n s st u"
  by (simp add: row_recorded_def split: outcome.splits prod.splits)

lemma evaluate_with_progress_settles:
  assumes "\<not> stop_processing st"
    and "\<forall>t \<in> set ws. evaluation_settles (gmgn a (address t))"
  shows "\<exists>p c st'. evaluate_with_progress gmgn a n s tot ws pc st = Done (p, c) st'
           \<and> \<not> stop_processing st'
           \<and> (\<forall>t \<in> set ws. row_recorded gmgn a n s st' t)
           \<and> (\<forall>k. k \<notin> (\<lambda>t. (address t, a)) ` set ws \<longrightarrow> traders st' k = traders st k)"
  using assms
proof (induction ws arbitrary: pc st)
  case Nil
  show ?case using Nil.prems(1) by (cases pc) simp
next
  case (Cons t ws)
  obtain p0 c0 where pc: "pc = (p0, c0)" by (cases pc)
  have settle: "evaluation_settles (gmgn a (address t))" using Cons.prems(2) by simp
  obtain p1 st1 where
    st1: "evaluate_and_save a n s t (gmgn a (address t)) p0 st = Done p1 st1"
      "\<not> stop_processing st1" "row_recorded gmgn a n s st1 t"
      "\<forall>k. k \<noteq> (address t, a) \<longrightarrow> traders st1 k = traders st k"
    using evaluate_and_save_settles[where gmgn = gmgn and a = a and t = t and st = st
            and n = n and s = s and p = p0] Cons.prems(1) settle
    by blast
  let ?st2 = "if (c0 + 1) mod 10 = 0 \<or> c0 + 1 = tot
              then st1\<lparr>events := events st1 @ [Progress (c0 + 1) tot p1]\<rparr> else st1"
  have st2: "\<not> stop_processing ?st2" "traders ?st2 = traders st1"
    using st1(2) by simp_all
  have step: "evaluate_with_progress gmgn a n s tot (t # ws) pc st
               = evaluate_with_progress gmgn a n s tot ws (p1, c0 + 1) ?st2"
    using st1(1) pc by (simp add: Let_def)
  have rest: "\<forall>t \<in> set ws. evaluation_settles (gmgn a (address t))"
    using Cons.prems(2) by simp
  obtain p c st' where
    fin: "evaluate_with_progress gmgn a n s tot ws (p1, c0 + 1) ?st2 = Done (p, c) st'"
      "\<not> stop_processing st'" "\<forall>u \<in> set ws. row_recorded gmgn a n s st' u"
      "\<forall>k. k \<notin> (\<lambda>t. (address t, a)) ` set ws \<longrightarrow> traders st' k = traders ?st2 k"
    using Cons.IH[where pc = "(p1, c0 + 1)" and st = ?st2] st2(1) rest by blast
  have head: "row_recorded gmgn a n s st' t"
  proof (cases "(address t, a) \<in> (\<lambda>t. (address t, a)) ` set ws")
    case True
    then obtain u where u: "u \<in> set ws" "address u = address t" by auto
    have "row_recorded gmgn a n s st' u" using fin(3) u(1) by simp
    then show ?thesis using row_recorded_address[of t u gmgn a n s st'] u(2) by simp
  next
    case False
    then have "traders st' (address t, a) = traders st1 (address t, a)"
      using fin(4) st2(2) by simp
    then show ?thesis using row_recorded_cong[of st' t a st1 gmgn n s] st1(3) by simp
  qed
  have frame: "\<forall>k. k \<notin> (\<lambda>t. (address t, a)) ` set (t # ws) \<longrightarrow> traders st' k = traders st k"
    using fin(4) st2(2) st1(4) by auto
  show ?case using step fin(1,2,3) head frame by auto
qed

lemma fetch_traders_data_fst:
  "stop_processing st' = stop_processing st \<Longrightarrow>
     fst (fetch_traders_data bullx a st') = fst (fetch_traders_data bullx a st)"
  by (auto simp: fetch_traders_data_def Let_def split: sum.splits option.splits)

lemma fetch_traders_data_flag:
  "fst (fetch_traders_data bullx a st) \<noteq> [] \<Longrightarrow>
     stop_processing (snd (fetch_traders_data bullx a st)) = stop_processing st"
  by (auto simp: fetch_traders_data_def Let_def split: sum.splits option.splits if_splits)

lemma mark_token_processed_sel [simp]:
  "traders (mark_token_processed a n s h p st) = traders st"
  "stop_processing (mark_token_processed a n s h p st) = stop_processing st"
  "processed_tokens (mark_token_processed a n s h p st) a
     = Some \<lparr>row_token_name = n, row_token_symbol = s, total_holders = h, passed_traders = p\<rparr>"
  by (simp_all add: mark_token_processed_def)

text \<open>
  Claim C1, amended. For a target on which the run is not stopped, that is, the stop
  flag is unset when the target starts, every evaluation ends, and none raises an
  exception whose text contains \<open>429\<close>, \<open>rate limit\<close> or \<open>stopped by user\<close>, every wallet
  of the deduplicated list ends the target with an outcome row keyed by wallet and
  target, and every wallet whose evaluation raised an exception has the row with reason
  \<open>ERROR\<close> and zeroed statistics.
\<close>

theorem process_single_token_error_rows:
  assumes "token_symbol_of token_name = Inr token_symbol"
    and "\<not> stop_processing st"
    and "\<forall>t \<in> set (fst (fetch_traders_data bullx token_address st)).
           evaluation_settles (gmgn token_address (address t))"
  shows "\<exists>res st'.
           process_single_token bullx gmgn token_address token_name st = Done (Inr res) st'
           \<and> total_traders res = length (fst (fetch_traders_data bullx token_address st))
           \<and> (\<forall>t \<in> set (fst (fetch_traders_data bullx token_address st)).
                 (address t, token_address) \<in> dom (traders st')
                 \<and> (\<forall>e. gmgn token_address (address t) = Raises e \<longrightarrow>
                        traders st' (address t, token_address)
                          = Some (error_row token_name token_symbol)))"
proof -
  let ?st1 = "st\<lparr>current_token_name := Some token_name,
                  events := events st @ [TokenCallback token_name]\<rparr>"
  let ?ws = "fst (fetch_traders_data bullx token_address st)"
  obtain td st2 where f: "fetch_traders_data bullx token_address ?st1 = (td, st2)"
    by (cases "fetch_traders_data bullx token_address ?st1")
  have td: "td = ?ws"
    using fetch_traders_data_fst[of ?st1 st bullx token_address] f by simp
  show ?thesis
  proof (cases "td = []")
    case True
    then show ?thesis
      using assms(1) f td by (simp add: process_single_token_def Let_def)
  next
    case False
    have flag2: "\<not> stop_processing st2"
      using fetch_traders_data_flag[of bullx token_address ?st1] f False assms(2) by simp
    have settle: "\<forall>t \<in> set td. evaluation_settles (gmgn token_address (address t))"
      using assms(3) td by simp
    obtain p c st3 where
      run: "evaluate_with_progress gmgn token_address token_name token_symbol (length td) td
              (0, 0) st2 = Done (p, c) st3"
        "\<not> stop_processing st3"
        "\<forall>t \<in> set td. row_recorded gmgn token_address token_name token_symbol st3 t"
      using evaluate_with_progress_settles[where gmgn = gmgn and a = token_address
              and ws = td and st = st2 and n = token_name and s = token_symbol
              and tot = "length td" and pc = "(0, 0)"] flag2 settle
      by blast
    let ?st4 = "mark_token_processed token_address token_name token_symbol (length td) p st3"
    have res: "process_single_token bullx gmgn token_address token_name st =
                 Done (Inr \<lparr>res_token_address = token_address, res_token_name = token_name,
                            total_traders = length td, res_passed_traders = p\<rparr>) ?st4"
      using assms(1) f False flag2 run(1,2)
      by (simp add: process_single_token_def run_tasks_def Let_def)
    have rows: "(address t, token_address) \<in> dom (traders ?st4)
                 \<and> (\<forall>e. gmgn token_address (address t) = Raises e \<longrightarrow>
                        traders ?st4 (address t, token_address)
                          = Some (error_row token_name token_symbol))"
      if "t \<in> set td" for t
    proof -
      have rr: "row_recorded gmgn token_address token_name token_symbol st3 t"
        using run(3) that by simp
      show ?thesis
        using rr by (cases "gmgn token_address (address t)")
          (auto simp: row_recorded_def split: option.splits)
    qed
    show ?thesis using res rows td by auto
  qed
qed

subsection \<open>Stopped and throttled runs\<close>

lemma stop_text: "stop_signal_text ''Processing stopped by user''"
  by (simp add: stop_signal_text_def py_lower_def lower_char_def)

lemma symbol_tk: "token_symbol_of ''Token (TK)'' = Inr ''TK''"
  by (simp add: token_symbol_of_def)

lemma eval_stopped:
  "evaluation_of (\<lambda>token_address wallet. [stopped_pass]) t w = Raises ''Processing stopped by user''"
  by (simp add: evaluation_of_def evaluate_trader_def sync_fetch_def stopped_pass_def)

lemma fetch_two:
  "fetch_traders_data two_wallets ''T1'' st =
     ([wallet_named ''A'', wallet_named ''B''],
      st\<lparr>events := events st @ [FetchTraders ''T1'']\<rparr>)" if "\<not> stop_processing st"
  using that
  by (simp add: fetch_traders_data_def two_wallets_def fetch_top500_traders_def wallet_named_def)

text \<open>
  Claim C1 as stated fails. The stop predicate is true at the first pass of the fetch of
  wallet A, so its evaluation raises \<open>Processing stopped by user\<close>; the handler of
  \<open>evaluate_and_save\<close> then sets the stop flag and returns without writing a row, wallet
  B is skipped, and the target is checkpointed with a wallet count of two while neither
  wallet has a row.
\<close>

theorem stopped_wallets_counterexample:
  "evaluation_of (\<lambda>token_address wallet. [stopped_pass]) ''T1'' ''A''
     = Raises ''Processing stopped by user''
   \<and> traders (run_state (process_single_token two_wallets
        (evaluation_of (\<lambda>token_address wallet. [stopped_pass]))
        ''T1'' ''Token (TK)'' fresh_processor)) (''A'', ''T1'') = None
   \<and> traders (run_state (process_single_token two_wallets
        (evaluation_of (\<lambda>token_address wallet. [stopped_pass]))
        ''T1'' ''Token (TK)'' fresh_processor)) (''B'', ''T1'') = None
   \<and> map_option total_holders (processed_tokens (run_state (process_single_token two_wallets
        (evaluation_of (\<lambda>token_address wallet. [stopped_pass]))
        ''T1'' ''Token (TK)'' fresh_processor)) ''T1'') = Some 2"
  by (simp add: process_single_token_def symbol_tk fetch_two fresh_processor_def eval_stopped
        run_tasks_def evaluate_and_save_def stop_text Let_def wallet_named_def stop_def
        fatal_callback_def mark_token_processed_def)

lemma sync_fetch_loop_throttled:
  "sync_fetch_loop True b (replicate n (pass_of Status429)) =
     (concat (replicate n [WaitSlot, HttpGet, Sleep 3 2]), Pending, [])"
  by (induction n arbitrary: b) (simp_all add: pass_of_def retry_def)

lemma sync_fetch_throttled:
  "sync_fetch True (replicate n (pass_of Status429)) =
     (concat (replicate n [WaitSlot, HttpGet, Sleep 3 2]), Pending, [])"
  by (simp add: sync_fetch_def sync_fetch_loop_throttled)

lemma evaluation_throttled: "evaluation_of (throttled_passes n) t w = Pending"
  by (simp add: evaluation_of_def evaluate_trader_def throttled_passes_def sync_fetch_throttled)

lemma fetch_one:
  "fetch_traders_data one_wallet ''T1'' st =
     ([wallet_named ''A''], st\<lparr>events := events st @ [FetchTraders ''T1'']\<rparr>)"
  if "\<not> stop_processing st"
  using that
  by (simp add: fetch_traders_data_def one_wallet_def fetch_top500_traders_def wallet_named_def)

lemma throttled_run:
  "process_all_tokens one_wallet (evaluation_of (throttled_passes n))
     [(''T1'', ''Token (TK)'')] fresh_processor =
   Hung \<lparr>stop_processing = False, current_token_name = Some ''Token (TK)'',
         traders = Map.empty, processed_tokens = Map.empty,
         events = [TokenCallback ''Token (TK)'', FetchTraders ''T1'', EvaluateTrader ''A'']\<rparr>"
  by (simp add: process_all_tokens_def unprocessed_tokens_def get_processed_token_addresses_def
        process_single_token_def symbol_tk fetch_one fresh_processor_def evaluation_throttled
        run_tasks_def evaluate_and_save_def Let_def wallet_named_def)

text \<open>
  Claim C2 as stated fails. With one wallet whose fetch gets HTTP 429 on every pass,
  there is no number of passes after which the run has ended or the stop flag is set:
  the fetch client keeps retrying and no exception reaches the coordinator.
\<close>

theorem persistent_429_counterexample:
  "\<not> (\<exists>n. case process_all_tokens one_wallet (evaluation_of (throttled_passes n))
               [(''T1'', ''Token (TK)'')] fresh_processor of
            Done results st \<Rightarrow> True
          | Hung st \<Rightarrow> stop_processing st)"
  by (simp add: throttled_run)

lemma token_loop_stopped:
  "stop_processing st \<Longrightarrow> token_loop bullx gmgn ts results st = Done results st"
  by (cases ts) auto

text \<open>
  Claim C2, amended. When the wallet-list request of the target in progress is
  throttled (HTTP 429, or \<open>429\<close> or \<open>rate limit\<close> in the text of the error), the
  coordinator sets the stop flag on that first failure, without retrying, and reports
  the fatal error; the target finalizes with a checkpoint of zero wallets and zero
  passed; and no further target of the list is started in that run.
\<close>

theorem wallet_list_throttled_stops_run:
  assumes "\<not> stop_processing st"
    and "token_address \<notin> get_processed_token_addresses st"
    and "bullx token_address = BullxRaises e"
    and "status_code e = Some 429 \<or> rate_limit_text (message e)"
    and "token_symbol_of token_name = Inr token_symbol"
  shows "\<exists>msg. process_all_tokens bullx gmgn ((token_address, token_name) # later) st =
           Done [\<lparr>res_token_address = token_address, res_token_name = token_name,
                  total_traders = 0, res_passed_traders = 0\<rparr>]
             (st\<lparr>stop_processing := True,
                 current_token_name := Some token_name,
                 processed_tokens := (processed_tokens st)(token_address \<mapsto>
                   \<lparr>row_token_name = token_name, row_token_symbol = token_symbol,
                    total_holders = 0, passed_traders = 0\<rparr>),
                 events := events st @
                   [TokenCallback token_name, FetchTraders token_address, Fatal msg]\<rparr>)"
proof -
  let ?st1 = "st\<lparr>current_token_name := Some token_name,
                  events := events st @ [TokenCallback token_name]\<rparr>"
  obtain msg where f: "fetch_traders_data bullx token_address ?st1 =
      ([], ?st1\<lparr>stop_processing := True,
                events := events ?st1 @ [FetchTraders token_address, Fatal msg]\<rparr>)"
    using assms(3,4)
    by (cases "status_code e = Some 429")
       (auto simp: fetch_traders_data_def fetch_top500_traders_def Let_def stop_def
          fatal_callback_def)
  have un: "unprocessed_tokens ((token_address, token_name) # later) st
              = (token_address, token_name) # unprocessed_tokens later st"
    using assms(2) by (simp add: unprocessed_tokens_def)
  have single: "process_single_token bullx gmgn token_address token_name st =
      Done (Inr \<lparr>res_token_address = token_address, res_token_name = token_name,
                 total_traders = 0, res_passed_traders = 0\<rparr>)
        (mark_token_processed token_address token_name token_symbol 0 0
           (?st1\<lparr>stop_processing := True,
                 events := events ?st1 @ [FetchTraders token_address, Fatal msg]\<rparr>))"
    using assms(5) f by (simp add: process_single_token_def Let_def)
  show ?thesis
    using assms(1) un single
    by (auto simp: process_all_tokens_def token_loop_stopped mark_token_processed_def
          intro!: exI[of _ msg])
qed

subsection \<open>A failed wallet-list request\<close>

text \<open>
  Claim C9. When the wallet-list request of a target raises an exception that is no
  throttling (its status is not 429 and its text contains neither \<open>429\<close> nor
  \<open>rate limit\<close>), \<open>fetch_traders_data\<close> returns the empty list without touching the
  stop flag, and \<open>process_single_token\<close> records the checkpoint with zero wallets and
  zero passed; and every later run that finds the target checkpointed leaves it out of
  its unprocessed targets and leaves it alone: no wallet-list request, no change of
  its outcome rows, and the checkpoint stays.
\<close>

theorem non_throttling_failure_checkpoints_target:
  assumes "bullx token_address = BullxRaises e"
    and "status_code e \<noteq> Some 429" and "\<not> rate_limit_text (message e)"
    and "token_symbol_of token_name = Inr token_symbol"
  shows "fetch_traders_data bullx token_address st
           = ([], st\<lparr>events := events st @ [FetchTraders token_address]\<rparr>)
       \<and> process_single_token bullx gmgn token_address token_name st =
           Done (Inr \<lparr>res_token_address = token_address, res_token_name = token_name,
                      total_traders = 0, res_passed_traders = 0\<rparr>)
             (st\<lparr>current_token_name := Some token_name,
                 processed_tokens := (processed_tokens st)(token_address \<mapsto>
                   \<lparr>row_token_name = token_name, row_token_symbol = token_symbol,
                    total_holders = 0, passed_traders = 0\<rparr>),
                 events := events st @ [TokenCallback token_name, FetchTraders token_address]\<rparr>)
       \<and> (\<forall>bullx' gmgn' tokens' later.
             token_address \<in> get_processed_token_addresses later \<longrightarrow>
               token_address \<notin> fst ` set (unprocessed_tokens tokens' later)
               \<and> untouched token_address later
                    (run_state (process_all_tokens bullx' gmgn' tokens' later)))"
proof -
  have f: "fetch_traders_data bullx token_address s
             = ([], s\<lparr>events := events s @ [FetchTraders token_address]\<rparr>)" for s
    using assms(1-3) by (simp add: fetch_traders_data_def fetch_top500_traders_def Let_def)
  have p: "process_single_token bullx gmgn token_address token_name st =
           Done (Inr \<lparr>res_token_address = token_address, res_token_name = token_name,
                      total_traders = 0, res_passed_traders = 0\<rparr>)
             (st\<lparr>current_token_name := Some token_name,
                 processed_tokens := (processed_tokens st)(token_address \<mapsto>
                   \<lparr>row_token_name = token_name, row_token_symbol = token_symbol,
                    total_holders = 0, passed_traders = 0\<rparr>),
                 events := events st @ [TokenCallback token_name, FetchTraders token_address]\<rparr>)"
    using assms(4) by (simp add: process_single_token_def Let_def f mark_token_processed_def)
  have l: "token_address \<notin> fst ` set (unprocessed_tokens tokens' later)"
    if "token_address \<in> get_processed_token_addresses later" for tokens' later
    using that by (auto simp: unprocessed_tokens_def)
  show ?thesis using f p l untouched_process_all_tokens by blast
qed

text \<open>
  Claim C9, at a concrete input: the wallet-list request fails with a server error,
  and the next run over the same target list finds the checkpoint.
\<close>

theorem non_throttling_failure_checkpoints_target_witness:
  "process_single_token server_error (evaluation_of (\<lambda>token_address wallet. []))
      ''T1'' ''Token (TK)'' fresh_processor =
     Done (Inr \<lparr>res_token_address = ''T1'', res_token_name = ''Token (TK)'',
                total_traders = 0, res_passed_traders = 0\<rparr>) checkpointed_empty
   \<and> ''T1'' \<notin> fst ` set (unprocessed_tokens [(''T1'', ''Token (TK)'')] checkpointed_empty)
   \<and> untouched ''T1'' checkpointed_empty
        (run_state (process_all_tokens two_wallets (evaluation_of (\<lambda>token_address wallet. []))
           [(''T1'', ''Token (TK)'')] checkpointed_empty))"
  using non_throttling_failure_checkpoints_target
    [of server_error "''T1''"
        "\<lparr>status_code = Some 500, message = ''Server error 500 Internal Server Error''\<rparr>"
        "''Token (TK)''" "''TK''" fresh_processor "evaluation_of (\<lambda>token_address wallet. [])"]
  by (simp add: server_error_def rate_limit_text_def py_lower_def lower_char_def symbol_tk
        fresh_processor_def checkpointed_empty_def get_processed_token_addresses_def)

text \<open>Claim C8, at a concrete input: a list of two targets, both checkpointed.\<close>

theorem process_all_tokens_rerun_witness:
  "unprocessed_tokens [(''T1'', ''Token (TK)''), (''T2'', ''UNKNOWN'')] both_checkpointed = []
   \<and> process_all_tokens two_wallets (evaluation_of (\<lambda>token_address wallet. []))
       [(''T1'', ''Token (TK)''), (''T2'', ''UNKNOWN'')] both_checkpointed
     = Done [] both_checkpointed"
  using process_all_tokens_rerun
    [of "[(''T1'', ''Token (TK)''), (''T2'', ''UNKNOWN'')]" both_checkpointed two_wallets
        "evaluation_of (\<lambda>token_address wallet. [])"]
  by (simp add: both_checkpointed_def get_processed_token_addresses_def)

text \<open>
  Claim C2, amended, at a concrete input: two targets, the wallet-list request
  answering HTTP 429; the second target is never started.
\<close>

theorem wallet_list_throttled_stops_run_witness:
  "\<exists>msg. process_all_tokens throttled_list (evaluation_of (\<lambda>token_address wallet. []))
      [(''T1'', ''Token (TK)''), (''T2'', ''UNKNOWN'')] fresh_processor =
     Done [\<lparr>res_token_address = ''T1'', res_token_name = ''Token (TK)'',
            total_traders = 0, res_passed_traders = 0\<rparr>]
       \<lparr>stop_processing = True, current_token_name = Some ''Token (TK)'',
        traders = Map.empty,
        processed_tokens = [''T1'' \<mapsto> \<lparr>row_token_name = ''Token (TK)'',
          row_token_symbol = ''TK'', total_holders = 0, passed_traders = 0\<rparr>],
        events = [TokenCallback ''Token (TK)'', FetchTraders ''T1'', Fatal msg]\<rparr>"
  using wallet_list_throttled_stops_run
    [of fresh_processor "''T1''" throttled_list
        "\<lparr>status_code = Some 429, message = ''Client error 429 Too Many Requests''\<rparr>"
        "''Token (TK)''" "''TK''" "evaluation_of (\<lambda>token_address wallet. [])"
        "[(''T2'', ''UNKNOWN'')]"]
  by (simp add: throttled_list_def symbol_tk fresh_processor_def
        get_processed_token_addresses_def)

text \<open>
  Claim C1, amended, at a concrete input: the evaluation of wallet A raises a type
  error and that of wallet B returns \<open>JSON_FAIL\<close>.
\<close>

theorem process_single_token_error_rows_witness:
  "\<exists>res st'.
     process_single_token two_wallets failing_evaluations ''T1'' ''Token (TK)'' fresh_processor
       = Done (Inr res) st'
     \<and> traders st' (''A'', ''T1'') = Some (error_row ''Token (TK)'' ''TK'')
     \<and> (''B'', ''T1'') \<in> dom (traders st')"
  using process_single_token_error_rows
    [of "''Token (TK)''" "''TK''" fresh_processor two_wallets "''T1''" failing_evaluations]
  by (auto simp: symbol_tk fresh_processor_def fetch_two[unfolded fresh_processor_def]
        failing_evaluations_def evaluation_settles_def stop_signal_text_def py_lower_def
        lower_char_def wallet_named_def)


end
